theory Spec2Isabelle
  imports Complex_Main
begin

section \<open>JavaScript values\<close>

text \<open>
  The values that can be thrown, passed as payload or returned by the endpoint. Numbers are
  the finite values (as rationals), NaN and the two infinities; objects and functions carry
  their own properties as an association list (first binding wins). What a function
  returns when it is called is not part of the value: it is the parameter \<open>callf\<close> of the
  state setters below. Prototype chains, getters and object identity are not represented.
\<close>

datatype jsval =
    JUndefined
  | JNull
  | JBool bool
  | JNum rat
  | JNaN
  | JInf bool
  | JBigInt int
  | JStr string
  | JSymbol nat
  | JObj "(string \<times> jsval) list"
  | JFun "(string \<times> jsval) list"

text \<open>ToBoolean: what \<open>&&\<close> and \<open>if\<close> test.\<close>

fun truthy :: "jsval \<Rightarrow> bool" where
  "truthy JUndefined = False"
| "truthy JNull = False"
| "truthy (JBool b) = b"
| "truthy (JNum r) = (r \<noteq> 0)"
| "truthy JNaN = False"
| "truthy (JInf _) = True"
| "truthy (JBigInt i) = (i \<noteq> 0)"
| "truthy (JStr s) = (s \<noteq> [])"
| "truthy (JSymbol _) = True"
| "truthy (JObj _) = True"
| "truthy (JFun _) = True"

fun typeof :: "jsval \<Rightarrow> string" where
  "typeof JUndefined = ''undefined''"
| "typeof JNull = ''object''"
| "typeof (JBool _) = ''boolean''"
| "typeof (JNum _) = ''number''"
| "typeof JNaN = ''number''"
| "typeof (JInf _) = ''number''"
| "typeof (JBigInt _) = ''bigint''"
| "typeof (JStr _) = ''string''"
| "typeof (JSymbol _) = ''symbol''"
| "typeof (JObj _) = ''object''"
| "typeof (JFun _) = ''function''"

text \<open>
  Reading a property \<open>v.name\<close>. On \<open>undefined\<close> and \<open>null\<close> JavaScript raises a
  TypeError, which is the \<open>None\<close> here; on the other primitives the read gives
  \<open>undefined\<close>.
\<close>

fun get_prop :: "jsval \<Rightarrow> string \<Rightarrow> jsval option" where
  "get_prop JUndefined n = None"
| "get_prop JNull n = None"
| "get_prop (JObj ps) n = Some (case map_of ps n of None \<Rightarrow> JUndefined | Some v \<Rightarrow> v)"
| "get_prop (JFun ps) n = Some (case map_of ps n of None \<Rightarrow> JUndefined | Some v \<Rightarrow> v)"
| "get_prop v n = Some JUndefined"

section \<open>The submission hook\<close>

datatype SubmissionStatus = IDLE | PENDING | RETRYING | SUCCESS | ERROR

text \<open>
  \<open>isRetryable\<close> is \<open>err && typeof err === 'object' && err.status === 503\<close>. The operator
  \<open>&&\<close> gives its left operand when that is falsy and does not evaluate the right one,
  so a falsy \<open>err\<close> is returned as it is and \<open>err.status\<close> is read only from a truthy
  value of type object.
\<close>

definition isRetryable :: "jsval \<Rightarrow> jsval" where
  "isRetryable err =
     (if \<not> truthy err then err
      else if typeof err \<noteq> ''object'' then JBool False
      else JBool (get_prop err ''status'' = Some (JNum 503)))"

record options =
  maxRetries :: int
  retryDelayMs :: int

text \<open>The defaults of \<open>useFormSubmission(options = {})\<close>.\<close>

definition default_options :: options where
  "default_options = \<lparr>maxRetries = 3, retryDelayMs = 750\<rparr>"

text \<open>
  A call of the asynchronous \<open>submit\<close> that is suspended at one of its two \<open>await\<close>s:
  the sleep before a retry, or the pending call of \<open>submitForm\<close>. \<open>tid\<close> numbers the
  calls of \<open>submit\<close> in the order they are made and is also the index of the promise the
  call returned.
\<close>

datatype suspended = AwaitSleep | AwaitSubmitForm

record task =
  tid :: nat
  payload :: jsval
  attempt :: int
  waiting :: suspended

datatype promise = Unsettled | Fulfilled jsval | Rejected jsval

text \<open>
  The hook's cells (\<open>inFlightRef.current\<close> and the four \<open>useState\<close> values, each holding
  the value last stored), the suspended calls of \<open>submit\<close>, the log of the calls made to
  \<open>submitForm\<close> (each with the \<open>submit\<close> call that made it and the argument passed),
  and the promises returned by \<open>submit\<close>.
\<close>

record world =
  inFlight :: bool
  status :: SubmissionStatus
  retryCount :: int
  error :: jsval
  result :: jsval
  tasks :: "task list"
  calls :: "(nat \<times> jsval) list"
  promises :: "promise list"

definition initial :: world where
  "initial = \<lparr>inFlight = False, status = IDLE, retryCount = 0, error = JNull,
     result = JNull, tasks = [], calls = [], promises = []\<rparr>"

text \<open>The \<open>finally\<close> block, then the promise of call \<open>i\<close> settles.\<close>

definition leave :: "nat \<Rightarrow> promise \<Rightarrow> world \<Rightarrow> world" where
  "leave i pr w = w\<lparr>inFlight := False, promises := (promises w)[i := pr]\<rparr>"

text \<open>Line 50: \<open>submitForm(payload)\<close> is called and the call of \<open>submit\<close> awaits it.\<close>

definition call_submitForm :: "nat \<Rightarrow> jsval \<Rightarrow> int \<Rightarrow> world \<Rightarrow> world" where
  "call_submitForm i p a w =
     w\<lparr>calls := calls w @ [(i, p)],
       tasks := tasks w @ [\<lparr>tid = i, payload = p, attempt = a, waiting = AwaitSubmitForm\<rparr>]\<rparr>"

text \<open>
  The head of the \<open>for\<close> loop with \<open>attempt = a\<close>, and its body up to the first \<open>await\<close>.
  When the test \<open>attempt <= maxRetries\<close> fails the loop is left without a \<open>return\<close>:
  the \<open>finally\<close> block runs and the promise fulfils with \<open>undefined\<close>.
\<close>

definition loop_head :: "options \<Rightarrow> nat \<Rightarrow> jsval \<Rightarrow> int \<Rightarrow> world \<Rightarrow> world" where
  "loop_head cfg i p a w =
     (if a \<le> maxRetries cfg then
        (if a > 0 then
           w\<lparr>status := RETRYING, retryCount := a,
             tasks := tasks w @ [\<lparr>tid = i, payload = p, attempt = a, waiting = AwaitSleep\<rparr>]\<rparr>
         else call_submitForm i p a w)
      else leave i (Fulfilled JUndefined) w)"

text \<open>
  A setter of \<open>useState\<close>, called with \<open>v\<close> while the cell holds \<open>prev\<close>: a function is
  run as an updater on \<open>prev\<close> and what it returns is stored, any other value is stored as
  it is. \<open>callf f x\<close> is the value that calling the function value \<open>f\<close> with the argument
  \<open>x\<close> returns; it stands for the behaviour of the functions, which the values do not
  carry, and covers the functions that return. The hook's other setter calls pass null, a
  number or a status string.
\<close>

definition setState :: "(jsval \<Rightarrow> jsval \<Rightarrow> jsval) \<Rightarrow> jsval \<Rightarrow> jsval \<Rightarrow> jsval" where
  "setState callf prev v = (if typeof v = ''function'' then callf v prev else v)"

text \<open>The behaviour of functions such as \<open>() => {}\<close>: every call returns \<open>undefined\<close>.\<close>

definition returns_undefined :: "jsval \<Rightarrow> jsval \<Rightarrow> jsval" where
  "returns_undefined f x = JUndefined"

text \<open>
  Lines 51 to 53: \<open>submitForm\<close> resolved with \<open>response\<close>. \<open>setResult(response)\<close> goes
  through the setter, \<open>return response\<close> fulfils the promise with the value itself.
\<close>

definition on_response ::
  "(jsval \<Rightarrow> jsval \<Rightarrow> jsval) \<Rightarrow> task \<Rightarrow> jsval \<Rightarrow> world \<Rightarrow> world" where
  "on_response callf t response w =
     leave (tid t) (Fulfilled response)
       (w\<lparr>result := setState callf (result w) response, status := SUCCESS\<rparr>)"

text \<open>
  Lines 54 to 61: \<open>submitForm\<close> rejected with (or threw) \<open>err\<close>. \<open>setError(err)\<close> goes
  through the setter, \<open>throw err\<close> rejects the promise with the value itself.
\<close>

definition on_catch ::
  "(jsval \<Rightarrow> jsval \<Rightarrow> jsval) \<Rightarrow> options \<Rightarrow> task \<Rightarrow> jsval \<Rightarrow> world \<Rightarrow> world" where
  "on_catch callf cfg t err w =
     (if truthy (isRetryable err) \<and> attempt t < maxRetries cfg
      then loop_head cfg (tid t) (payload t) (attempt t + 1) w
      else leave (tid t) (Rejected err)
             (w\<lparr>error := setState callf (error w) err, status := ERROR\<rparr>))"

text \<open>
  \<open>submit(payload)\<close>, up to its first \<open>await\<close>. The call returns promise number
  \<open>length (promises w)\<close>; the guard's bare \<open>return\<close> fulfils it with \<open>undefined\<close>.
\<close>

definition submit :: "options \<Rightarrow> jsval \<Rightarrow> world \<Rightarrow> world" where
  "submit cfg p w =
     (if inFlight w then w\<lparr>promises := promises w @ [Fulfilled JUndefined]\<rparr>
      else loop_head cfg (length (promises w)) p 0
             (w\<lparr>inFlight := True, error := JNull, result := JNull, retryCount := 0,
                status := PENDING, promises := promises w @ [Unsettled]\<rparr>))"

definition reset :: "world \<Rightarrow> world" where
  "reset w =
     (if inFlight w then w
      else w\<lparr>status := IDLE, retryCount := 0, error := JNull, result := JNull\<rparr>)"

text \<open>
  What can happen to a hook: a caller calls \<open>submit\<close> or \<open>reset\<close>, the endpoint settles
  the call of \<open>submitForm\<close> that a suspended \<open>submit\<close> awaits, or the timer of a sleeping
  one fires. An event for a call that is not suspended there cannot occur and changes
  nothing.
\<close>

datatype event =
    Submit jsval
  | Reset
  | Resolves nat jsval
  | Rejects nat jsval
  | TimerFires nat

definition take_task :: "nat \<Rightarrow> suspended \<Rightarrow> world \<Rightarrow> (task \<times> world) option" where
  "take_task i k w =
     (case List.find (\<lambda>t. tid t = i \<and> waiting t = k) (tasks w) of
        None \<Rightarrow> None
      | Some t \<Rightarrow> Some (t, w\<lparr>tasks := remove1 t (tasks w)\<rparr>))"

fun step :: "(jsval \<Rightarrow> jsval \<Rightarrow> jsval) \<Rightarrow> options \<Rightarrow> event \<Rightarrow> world \<Rightarrow> world" where
  "step callf cfg (Submit p) w = submit cfg p w"
| "step callf cfg Reset w = reset w"
| "step callf cfg (Resolves i v) w =
     (case take_task i AwaitSubmitForm w of
        None \<Rightarrow> w
      | Some (t, w') \<Rightarrow> on_response callf t v w')"
| "step callf cfg (Rejects i e) w =
     (case take_task i AwaitSubmitForm w of
        None \<Rightarrow> w
      | Some (t, w') \<Rightarrow> on_catch callf cfg t e w')"
| "step callf cfg (TimerFires i) w =
     (case take_task i AwaitSleep w of
        None \<Rightarrow> w
      | Some (t, w') \<Rightarrow> call_submitForm (tid t) (payload t) (attempt t) w')"

definition run ::
  "(jsval \<Rightarrow> jsval \<Rightarrow> jsval) \<Rightarrow> options \<Rightarrow> event list \<Rightarrow> world \<Rightarrow> world" where
  "run callf cfg evs w = foldl (\<lambda>w ev. step callf cfg ev w) w evs"

section \<open>The form that uses the hook\<close>

text \<open>\<open>TransactionForm\<close> creates its hook with these options.\<close>

definition form_options :: options where
  "form_options = \<lparr>maxRetries = 3, retryDelayMs = 2000\<rparr>"











section \<open>Observations on runs\<close>

text \<open>How often call \<open>i\<close> of \<open>submit\<close> has invoked \<open>submitForm\<close>.\<close>

definition ncalls :: "nat \<Rightarrow> world \<Rightarrow> nat" where
  "ncalls i w = length (filter (\<lambda>c. fst c = i) (calls w))"


text \<open>
  The endpoint rejects the pending call of \<open>submit\<close> number \<open>i\<close> with each of \<open>es\<close> in
  turn, and after each rejection the retry timer fires.
\<close>

definition retry_events :: "nat \<Rightarrow> jsval list \<Rightarrow> event list" where
  "retry_events i es = concat (map (\<lambda>e. [Rejects i e, TimerFires i]) es)"

text \<open>The rejection of the mock endpoint, and the one of the form's test of a hard failure.\<close>

definition service_unavailable :: jsval where
  "service_unavailable =
     JObj [(''status'', JNum 503), (''message'', JStr ''Service temporarily unavailable'')]"

definition bad_request :: jsval where
  "bad_request = JObj [(''status'', JNum 400), (''message'', JStr ''Bad Request'')]"

definition mock_success :: jsval where
  "mock_success = JObj [(''success'', JBool True), (''data'', JObj [(''id'', JStr ''X'')])]"

subsection \<open>Invariants\<close>

text \<open>
  At most one call of \<open>submit\<close> is suspended, and exactly then the guard is set, the status
  is \<open>PENDING\<close> or \<open>RETRYING\<close>, error and result are null and the promise of that call
  is not settled.
\<close>

definition guard_inv :: "world \<Rightarrow> bool" where
  "guard_inv w =
     ((case tasks w of
         [] \<Rightarrow> \<not> inFlight w
       | [t] \<Rightarrow> inFlight w \<and> (status w = PENDING \<or> status w = RETRYING) \<and> error w = JNull
                \<and> result w = JNull \<and> tid t < length (promises w)
                \<and> promises w ! tid t = Unsettled
       | _ \<Rightarrow> False)
      \<and> (error w \<noteq> JNull \<longrightarrow> status w = ERROR)
      \<and> (result w \<noteq> JNull \<longrightarrow> status w = SUCCESS))"

text \<open>With a budget that is not negative: the counters stay within it.\<close>

definition budget_inv :: "options \<Rightarrow> world \<Rightarrow> bool" where
  "budget_inv cfg w =
     ((tasks w = [] \<longrightarrow> status w \<noteq> PENDING \<and> status w \<noteq> RETRYING)
      \<and> 0 \<le> retryCount w \<and> retryCount w \<le> maxRetries cfg
      \<and> (\<forall>t \<in> set (tasks w). 0 \<le> attempt t \<and> attempt t \<le> maxRetries cfg
             \<and> int (ncalls (tid t) w) =
                 attempt t + (if waiting t = AwaitSubmitForm then 1 else 0))
      \<and> (\<forall>i. int (ncalls i w) \<le> maxRetries cfg + 1)
      \<and> (\<forall>i. length (promises w) \<le> i \<longrightarrow> ncalls i w = 0))"


lemmas hook_defs =
  run_def initial_def default_options_def form_options_def submit_def reset_def loop_head_def
  call_submitForm_def leave_def on_response_def on_catch_def take_task_def isRetryable_def
  setState_def returns_undefined_def
  retry_events_def ncalls_def service_unavailable_def bad_request_def mock_success_def

section \<open>Runs\<close>

lemma run_snoc: "run callf cfg (evs @ [ev]) w = step callf cfg ev (run callf cfg evs w)"
  by (simp add: run_def)

lemma run_Cons: "run callf cfg (ev # evs) w = run callf cfg evs (step callf cfg ev w)"
  by (simp add: run_def)

lemma run_append: "run callf cfg (xs @ ys) w = run callf cfg ys (run callf cfg xs w)"
  by (simp add: run_def)

lemma guard_inv_initial: "guard_inv initial"
  by (simp add: guard_inv_def initial_def)

lemma guard_inv_step: "guard_inv w \<Longrightarrow> guard_inv (step callf cfg ev w)"
  by (cases ev)
     (auto simp: guard_inv_def submit_def reset_def loop_head_def call_submitForm_def
        leave_def on_response_def on_catch_def take_task_def nth_append
        split: list.splits if_splits option.splits)

lemma guard_inv_run: "guard_inv (run callf cfg evs initial)"
proof (induction evs rule: rev_induct)
  case Nil
  show ?case by (simp add: run_def guard_inv_initial)
next
  case (snoc ev evs)
  then show ?case by (simp add: run_snoc guard_inv_step)
qed

lemma budget_inv_initial: "0 \<le> maxRetries cfg \<Longrightarrow> budget_inv cfg initial"
  by (simp add: budget_inv_def initial_def ncalls_def)

lemma budget_inv_step:
  "0 \<le> maxRetries cfg \<Longrightarrow> guard_inv w \<Longrightarrow> budget_inv cfg w \<Longrightarrow> budget_inv cfg (step callf cfg ev w)"
  by (cases ev)
     (auto simp: guard_inv_def budget_inv_def ncalls_def submit_def reset_def loop_head_def
        call_submitForm_def leave_def on_response_def on_catch_def take_task_def
        split: list.splits if_splits option.splits)

lemma budget_inv_run: "0 \<le> maxRetries cfg \<Longrightarrow> budget_inv cfg (run callf cfg evs initial)"
proof (induction evs rule: rev_induct)
  case Nil
  then show ?case by (simp add: run_def budget_inv_initial)
next
  case (snoc ev evs)
  then show ?case by (simp add: run_snoc budget_inv_step guard_inv_run)
qed




lemma idle_no_tasks: "guard_inv w \<Longrightarrow> \<not> inFlight w \<Longrightarrow> tasks w = []"
  by (auto simp: guard_inv_def split: list.splits)

lemma busy_iff_status:
  "guard_inv w \<Longrightarrow> budget_inv cfg w \<Longrightarrow> inFlight w = (status w = PENDING \<or> status w = RETRYING)"
  by (auto simp: guard_inv_def budget_inv_def split: list.splits)

lemma guard_inv_run_from: "guard_inv w \<Longrightarrow> guard_inv (run callf cfg evs w)"
proof (induction evs rule: rev_induct)
  case Nil
  then show ?case by (simp add: run_def)
next
  case (snoc ev evs)
  then show ?case by (simp add: run_snoc guard_inv_step)
qed

text \<open>A settled promise stays as it is, and promises are only added.\<close>

lemma settled_step:
  "guard_inv w \<Longrightarrow> i < length (promises w) \<Longrightarrow> promises w ! i \<noteq> Unsettled \<Longrightarrow>
     i < length (promises (step callf cfg ev w)) \<and> promises (step callf cfg ev w) ! i = promises w ! i"
  by (cases ev)
     (auto simp: guard_inv_def submit_def reset_def loop_head_def call_submitForm_def
        leave_def on_response_def on_catch_def take_task_def nth_append nth_list_update
        split: list.splits if_splits option.splits)

lemma settled_run:
  "guard_inv w \<Longrightarrow> i < length (promises w) \<Longrightarrow> promises w ! i \<noteq> Unsettled \<Longrightarrow>
     i < length (promises (run callf cfg evs w)) \<and> promises (run callf cfg evs w) ! i = promises w ! i"
proof (induction evs rule: rev_induct)
  case Nil
  then show ?case by (simp add: run_def)
next
  case (snoc ev evs)
  then have a: "i < length (promises (run callf cfg evs w))"
    and b: "promises (run callf cfg evs w) ! i = promises w ! i"
    by simp_all
  have "guard_inv (run callf cfg evs w)" using snoc.prems(1) by (rule guard_inv_run_from)
  from settled_step[OF this a, of callf cfg ev] b snoc.prems(3) show ?case
    by (simp add: run_snoc)
qed

subsection \<open>One cycle, undisturbed\<close>

lemma accepted_submit:
  assumes "\<not> inFlight w" and "tasks w = []" and "0 \<le> maxRetries cfg"
  shows "submit cfg p w =
     w\<lparr>inFlight := True, error := JNull, result := JNull, retryCount := 0, status := PENDING,
       promises := promises w @ [Unsettled], calls := calls w @ [(length (promises w), p)],
       tasks := [\<lparr>tid = length (promises w), payload = p, attempt = 0,
                  waiting = AwaitSubmitForm\<rparr>]\<rparr>"
  using assms by (simp add: submit_def loop_head_def call_submitForm_def)

lemma retry_step:
  assumes "tasks w = [\<lparr>tid = i, payload = p, attempt = a, waiting = AwaitSubmitForm\<rparr>]"
    and "a < maxRetries cfg" and "0 \<le> a" and "truthy (isRetryable e)"
  shows "run callf cfg [Rejects i e, TimerFires i] w =
     w\<lparr>status := RETRYING, retryCount := a + 1, calls := calls w @ [(i, p)],
       tasks := [\<lparr>tid = i, payload = p, attempt = a + 1, waiting = AwaitSubmitForm\<rparr>]\<rparr>"
  using assms
  by (simp add: run_def take_task_def on_catch_def loop_head_def call_submitForm_def)

lemma run_retries:
  assumes "tasks w = [\<lparr>tid = i, payload = p, attempt = a, waiting = AwaitSubmitForm\<rparr>]"
    and "a + int (length es) \<le> maxRetries cfg" and "0 \<le> a"
    and "\<forall>e \<in> set es. truthy (isRetryable e)"
  shows "run callf cfg (retry_events i es) w =
     (if es = [] then w
      else w\<lparr>status := RETRYING, retryCount := a + int (length es),
             calls := calls w @ replicate (length es) (i, p),
             tasks := [\<lparr>tid = i, payload = p, attempt = a + int (length es),
                        waiting = AwaitSubmitForm\<rparr>]\<rparr>)"
  using assms
proof (induction es arbitrary: a w)
  case Nil
  show ?case by (simp add: retry_events_def run_def)
next
  case (Cons e es)
  let ?w1 = "w\<lparr>status := RETRYING, retryCount := a + 1, calls := calls w @ [(i, p)],
       tasks := [\<lparr>tid = i, payload = p, attempt = a + 1, waiting = AwaitSubmitForm\<rparr>]\<rparr>"
  have unroll: "retry_events i (e # es) = [Rejects i e, TimerFires i] @ retry_events i es"
    by (simp add: retry_events_def)
  have one: "run callf cfg [Rejects i e, TimerFires i] w = ?w1"
    using Cons.prems by (intro retry_step) auto
  have rest: "run callf cfg (retry_events i es) ?w1 =
     (if es = [] then ?w1
      else ?w1\<lparr>status := RETRYING, retryCount := (a + 1) + int (length es),
             calls := calls ?w1 @ replicate (length es) (i, p),
             tasks := [\<lparr>tid = i, payload = p, attempt = (a + 1) + int (length es),
                        waiting = AwaitSubmitForm\<rparr>]\<rparr>)"
    using Cons.prems by (intro Cons.IH) auto
  show ?case
    unfolding unroll run_append one rest
    by (simp add: replicate_append_same add.assoc add.commute)
qed

lemma cycle_prefix:
  assumes "\<not> inFlight w" and "tasks w = []"
    and "int (length es) \<le> maxRetries cfg"
    and "\<forall>e \<in> set es. truthy (isRetryable e)"
    and "i = length (promises w)"
  shows "run callf cfg (Submit p # retry_events i es) w =
     w\<lparr>inFlight := True, error := JNull, result := JNull,
       retryCount := int (length es),
       status := (if es = [] then PENDING else RETRYING),
       promises := promises w @ [Unsettled],
       calls := calls w @ replicate (length es + 1) (i, p),
       tasks := [\<lparr>tid = i, payload = p, attempt = int (length es),
                  waiting = AwaitSubmitForm\<rparr>]\<rparr>"
proof -
  define w1 where "w1 = submit cfg p w"
  have N: "0 \<le> maxRetries cfg" using assms(3) by linarith
  have w1: "w1 = w\<lparr>inFlight := True, error := JNull, result := JNull, retryCount := 0,
       status := PENDING, promises := promises w @ [Unsettled], calls := calls w @ [(i, p)],
       tasks := [\<lparr>tid = i, payload = p, attempt = 0, waiting = AwaitSubmitForm\<rparr>]\<rparr>"
    unfolding w1_def using accepted_submit[OF assms(1,2) N] assms(5) by simp
  have t1: "tasks w1 = [\<lparr>tid = i, payload = p, attempt = 0, waiting = AwaitSubmitForm\<rparr>]"
    by (simp add: w1)
  have w2: "run callf cfg (retry_events i es) w1 = (if es = [] then w1
      else w1\<lparr>status := RETRYING, retryCount := 0 + int (length es),
             calls := calls w1 @ replicate (length es) (i, p),
             tasks := [\<lparr>tid = i, payload = p, attempt = 0 + int (length es),
                        waiting = AwaitSubmitForm\<rparr>]\<rparr>)"
    using assms(3,4) by (intro run_retries[OF t1]) auto
  have "run callf cfg (Submit p # retry_events i es) w = run callf cfg (retry_events i es) w1"
    by (simp add: run_Cons w1_def)
  also have "\<dots> = w\<lparr>inFlight := True, error := JNull, result := JNull,
       retryCount := int (length es),
       status := (if es = [] then PENDING else RETRYING),
       promises := promises w @ [Unsettled],
       calls := calls w @ replicate (length es + 1) (i, p),
       tasks := [\<lparr>tid = i, payload = p, attempt = int (length es),
                  waiting = AwaitSubmitForm\<rparr>]\<rparr>"
    unfolding w2 by (simp add: w1 replicate_append_same)
  finally show ?thesis .
qed

subsection \<open>State setters\<close>

lemma setState_plain: "typeof v \<noteq> ''function'' \<Longrightarrow> setState callf prev v = v"
  by (simp add: setState_def)

lemma retryable_is_object: "truthy (isRetryable e) \<Longrightarrow> typeof e = ''object''"
  by (cases e) (simp_all add: isRetryable_def split: if_splits)

lemma setState_retryable: "truthy (isRetryable e) \<Longrightarrow> setState callf prev e = e"
  by (simp add: setState_plain retryable_is_object)

subsection \<open>The form's runs are runs of the hook\<close>






section \<open>Claims\<close>

text \<open>
  C1 (single flight). Let the budget \<open>maxRetries\<close> be non-negative and \<open>w\<close> be the state
  after any sequence of calls of \<open>submit\<close> and \<open>reset\<close>, settlements and timer
  expiries. Then at most one call of \<open>submit\<close> is suspended in its attempt cycle; and if
  the status is \<open>PENDING\<close> or \<open>RETRYING\<close>, the guard is set and a further call
  \<open>submit(p)\<close> returns at once a promise fulfilled with \<open>undefined\<close> and leaves guard,
  status, retryCount, error, result, the suspended cycle and the log of invocations of
  \<open>submitForm\<close> as they were.
\<close>

theorem single_flight_guard:
  assumes "0 \<le> maxRetries cfg" and "w = run callf cfg evs initial"
  shows "length (tasks w) \<le> 1 \<and>
     (status w = PENDING \<or> status w = RETRYING \<longrightarrow>
        inFlight w \<and>
        step callf cfg (Submit p) w = w\<lparr>promises := promises w @ [Fulfilled JUndefined]\<rparr>)"
proof -
  have i1: "guard_inv w" using assms(2) by (simp add: guard_inv_run)
  have i2: "budget_inv cfg w" using assms by (simp add: budget_inv_run)
  have "length (tasks w) \<le> 1"
    using i1 by (auto simp: guard_inv_def split: list.splits)
  moreover have "status w = PENDING \<or> status w = RETRYING \<longrightarrow>
        inFlight w \<and>
        step callf cfg (Submit p) w = w\<lparr>promises := promises w @ [Fulfilled JUndefined]\<rparr>"
    using busy_iff_status[OF i1 i2] by (simp add: submit_def)
  ultimately show ?thesis by blast
qed

theorem single_flight_guard_witness:
  "0 \<le> maxRetries default_options
   \<and> status (run returns_undefined default_options [Submit (JStr ''a'')] initial) = PENDING
   \<and> length (tasks (run returns_undefined default_options [Submit (JStr ''a'')] initial)) \<le> 1
   \<and> step returns_undefined default_options (Submit (JStr ''b'')) (run returns_undefined default_options [Submit (JStr ''a'')] initial)
       = (run returns_undefined default_options [Submit (JStr ''a'')] initial)
           \<lparr>promises := promises (run returns_undefined default_options [Submit (JStr ''a'')] initial)
                          @ [Fulfilled JUndefined]\<rparr>"
  using single_flight_guard [where callf = returns_undefined and cfg = default_options and evs = "[Submit (JStr ''a'')]"
      and w = "run returns_undefined default_options [Submit (JStr ''a'')] initial" and p = "JStr ''b''"]
  by (simp add: hook_defs)

text \<open>
  C2 (retry bound). With \<open>maxRetries = N \<ge> 0\<close>, in every state that any sequence of events
  leads to, each call of \<open>submit\<close> has invoked \<open>submitForm\<close> at most \<open>N + 1\<close> times and
  \<open>retryCount\<close> is at most \<open>N\<close>.
\<close>

theorem retry_bound:
  assumes "0 \<le> maxRetries cfg" and "w = run callf cfg evs initial"
  shows "int (ncalls i w) \<le> maxRetries cfg + 1 \<and> retryCount w \<le> maxRetries cfg"
  using budget_inv_run[OF assms(1), of callf evs] assms(2) by (simp add: budget_inv_def)

theorem retry_bound_witness:
  "0 \<le> maxRetries default_options
   \<and> ncalls 0 (run returns_undefined default_options
        [Submit (JStr ''a''), Rejects 0 service_unavailable, TimerFires 0] initial) = 2
   \<and> retryCount (run returns_undefined default_options
        [Submit (JStr ''a''), Rejects 0 service_unavailable, TimerFires 0] initial) = 1
   \<and> int (ncalls 0 (run returns_undefined default_options
        [Submit (JStr ''a''), Rejects 0 service_unavailable, TimerFires 0] initial))
        \<le> maxRetries default_options + 1"
  using retry_bound [where callf = returns_undefined and cfg = default_options and i = 0
      and evs = "[Submit (JStr ''a''), Rejects 0 service_unavailable, TimerFires 0]"
      and w = "run returns_undefined default_options
        [Submit (JStr ''a''), Rejects 0 service_unavailable, TimerFires 0] initial"]
  by (simp add: hook_defs)




text \<open>
  C4 (exhaustion). With \<open>maxRetries = N \<ge> 0\<close>, from a reachable state with the guard free,
  let \<open>submit(p)\<close> be called and \<open>submitForm\<close> reject every invocation with a retryable
  error, the errors being \<open>es\<close> in order, \<open>N + 1\<close> of them. Then after exactly \<open>N + 1\<close>
  invocations the cycle is over with status \<open>ERROR\<close>, error the last of \<open>es\<close>, and the
  promise of the call rejected with it.
\<close>

theorem exhaustion:
  assumes "w = run callf cfg evs initial" and "\<not> inFlight w"
    and "int (length es) = maxRetries cfg + 1" and "0 \<le> maxRetries cfg"
    and "\<forall>e \<in> set es. truthy (isRetryable e)"
    and "i = length (promises w)"
    and "w' = run callf cfg (Submit p # retry_events i (butlast es) @ [Rejects i (last es)]) w"
  shows "calls w' = calls w @ replicate (length es) (i, p) \<and> status w' = ERROR \<and>
     error w' = last es \<and> result w' = JNull \<and> promises w' ! i = Rejected (last es) \<and>
     \<not> inFlight w' \<and> tasks w' = []"
proof -
  have nt: "tasks w = []"
    using assms(1,2) idle_no_tasks guard_inv_run by blast
  have ne: "es \<noteq> []" using assms(3,4) by auto
  from ne obtain es0 e where es: "es = es0 @ [e]"
    by (cases es rule: rev_cases) auto
  have len: "int (length es0) \<le> maxRetries cfg"
    using assms(3) es by simp
  have ret: "\<forall>e \<in> set es0. truthy (isRetryable e)"
    using assms(5) es by simp
  have "w' = step callf cfg (Rejects i e) (run callf cfg (Submit p # retry_events i es0) w)"
    using assms(7) run_snoc[of callf cfg "Submit p # retry_events i es0"] es by simp
  moreover have "setState callf JNull e = e"
    using assms(5) es by (simp add: setState_retryable)
  ultimately show ?thesis
    unfolding cycle_prefix[OF assms(2) nt len ret assms(6)] using assms(3,6) es
    by (simp add: take_task_def on_catch_def leave_def)
qed

theorem exhaustion_witness:
  "\<not> inFlight initial
   \<and> int (length [service_unavailable, JObj [(''status'', JNum 503)]])
       = maxRetries \<lparr>maxRetries = 1, retryDelayMs = 750\<rparr> + 1
   \<and> truthy (isRetryable service_unavailable)
   \<and> truthy (isRetryable (JObj [(''status'', JNum 503)]))
   \<and> calls (run returns_undefined \<lparr>maxRetries = 1, retryDelayMs = 750\<rparr>
        [Submit (JStr ''a''), Rejects 0 service_unavailable, TimerFires 0,
         Rejects 0 (JObj [(''status'', JNum 503)])] initial)
       = [(0, JStr ''a''), (0, JStr ''a'')]
   \<and> status (run returns_undefined \<lparr>maxRetries = 1, retryDelayMs = 750\<rparr>
        [Submit (JStr ''a''), Rejects 0 service_unavailable, TimerFires 0,
         Rejects 0 (JObj [(''status'', JNum 503)])] initial) = ERROR
   \<and> error (run returns_undefined \<lparr>maxRetries = 1, retryDelayMs = 750\<rparr>
        [Submit (JStr ''a''), Rejects 0 service_unavailable, TimerFires 0,
         Rejects 0 (JObj [(''status'', JNum 503)])] initial) = JObj [(''status'', JNum 503)]"
  using exhaustion [where callf = returns_undefined and cfg = "\<lparr>maxRetries = 1, retryDelayMs = 750\<rparr>" and evs = "[]"
      and w = initial and es = "[service_unavailable, JObj [(''status'', JNum 503)]]"
      and i = 0 and p = "JStr ''a''"
      and w' = "run returns_undefined \<lparr>maxRetries = 1, retryDelayMs = 750\<rparr>
        [Submit (JStr ''a''), Rejects 0 service_unavailable, TimerFires 0,
         Rejects 0 (JObj [(''status'', JNum 503)])] initial"]
  by (simp add: hook_defs)

text \<open>
  C5 (error classification), as the code has it. \<open>isRetryable(e)\<close> is truthy exactly when
  \<open>e\<close> is a non-null value whose \<open>typeof\<close> is \<open>'object'\<close> and whose property \<open>status\<close>
  is the number 503. Every other value is terminal whatever budget remains: the catch
  block passes it to \<open>setError\<close>, sets status \<open>ERROR\<close> and rejects the promise with it.
  The classification is a function of \<open>e\<close> alone. A function value is not of type object,
  so it is terminal even when it carries \<open>status = 503\<close>.
\<close>

theorem error_classification:
  "(truthy (isRetryable e) \<longleftrightarrow>
      typeof e = ''object'' \<and> e \<noteq> JNull \<and> get_prop e ''status'' = Some (JNum 503))
   \<and> (\<not> truthy (isRetryable e) \<longrightarrow>
        on_catch callf cfg t e w =
          leave (tid t) (Rejected e)
            (w\<lparr>error := setState callf (error w) e, status := ERROR\<rparr>))"
  by (cases e) (simp_all add: isRetryable_def on_catch_def)

theorem error_classification_witness:
  "truthy (isRetryable service_unavailable)
   \<and> \<not> truthy (isRetryable bad_request)
   \<and> status (on_catch returns_undefined default_options
        \<lparr>tid = 0, payload = JStr ''a'', attempt = 0, waiting = AwaitSubmitForm\<rparr>
        bad_request (initial\<lparr>promises := [Unsettled]\<rparr>)) = ERROR
   \<and> promises (on_catch returns_undefined default_options
        \<lparr>tid = 0, payload = JStr ''a'', attempt = 0, waiting = AwaitSubmitForm\<rparr>
        bad_request (initial\<lparr>promises := [Unsettled]\<rparr>)) = [Rejected bad_request]"
  using error_classification [where e = bad_request and cfg = default_options
      and callf = returns_undefined
      and t = "\<lparr>tid = 0, payload = JStr ''a'', attempt = 0, waiting = AwaitSubmitForm\<rparr>"
      and w = "initial\<lparr>promises := [Unsettled]\<rparr>"]
    error_classification [where e = service_unavailable]
  by (simp add: hook_defs)

theorem error_classification_counterexample:
  "get_prop (JFun [(''status'', JNum 503)]) ''status'' = Some (JNum 503)
   \<and> \<not> truthy (isRetryable (JFun [(''status'', JNum 503)]))"
  by (simp add: isRetryable_def)




text \<open>
  C7 (reset discipline). With \<open>maxRetries \<ge> 0\<close> and \<open>w\<close> reachable: while the status is
  \<open>PENDING\<close> or \<open>RETRYING\<close>, \<open>reset()\<close> changes nothing; while it is \<open>IDLE\<close>,
  \<open>SUCCESS\<close> or \<open>ERROR\<close>, \<open>reset()\<close> sets the status to \<open>IDLE\<close>, \<open>retryCount\<close> to 0 and
  error and result to null, and changes nothing else: no invocation of \<open>submitForm\<close> is
  added.
\<close>

theorem reset_discipline:
  assumes "0 \<le> maxRetries cfg" and "w = run callf cfg evs initial"
  shows "(status w = PENDING \<or> status w = RETRYING \<longrightarrow> step callf cfg Reset w = w)
     \<and> (status w = IDLE \<or> status w = SUCCESS \<or> status w = ERROR \<longrightarrow>
          step callf cfg Reset w =
            w\<lparr>status := IDLE, retryCount := 0, error := JNull, result := JNull\<rparr>)"
proof -
  have i1: "guard_inv w" using assms(2) by (simp add: guard_inv_run)
  have i2: "budget_inv cfg w" using assms by (simp add: budget_inv_run)
  show ?thesis
    using busy_iff_status[OF i1 i2] by (auto simp: reset_def)
qed

theorem reset_discipline_witness:
  "0 \<le> maxRetries default_options
   \<and> status (run returns_undefined default_options [Submit (JStr ''a'')] initial) = PENDING
   \<and> step returns_undefined default_options Reset (run returns_undefined default_options [Submit (JStr ''a'')] initial)
       = run returns_undefined default_options [Submit (JStr ''a'')] initial
   \<and> status (run returns_undefined default_options [Submit (JStr ''a''), Rejects 0 bad_request] initial) = ERROR
   \<and> step returns_undefined default_options Reset
        (run returns_undefined default_options [Submit (JStr ''a''), Rejects 0 bad_request] initial)
       = (run returns_undefined default_options [Submit (JStr ''a''), Rejects 0 bad_request] initial)
           \<lparr>status := IDLE, retryCount := 0, error := JNull, result := JNull\<rparr>"
  using reset_discipline [where callf = returns_undefined and cfg = default_options and evs = "[Submit (JStr ''a'')]"
      and w = "run returns_undefined default_options [Submit (JStr ''a'')] initial"]
    reset_discipline [where callf = returns_undefined and cfg = default_options
      and evs = "[Submit (JStr ''a''), Rejects 0 bad_request]"
      and w = "run returns_undefined default_options [Submit (JStr ''a''), Rejects 0 bad_request] initial"]
  by (simp add: hook_defs)

text \<open>
  C8 (result and error exclude each other). In every state that any sequence of events
  leads to, with any options: error and result are not both non-null; error is non-null
  only with status \<open>ERROR\<close> and result is non-null only with status \<open>SUCCESS\<close>; and a
  call of \<open>submit\<close> that the guard accepts leaves both null.
\<close>

theorem result_error_exclusive:
  assumes "w = run callf cfg evs initial"
  shows "\<not> (error w \<noteq> JNull \<and> result w \<noteq> JNull)
     \<and> (error w \<noteq> JNull \<longrightarrow> status w = ERROR)
     \<and> (result w \<noteq> JNull \<longrightarrow> status w = SUCCESS)
     \<and> (\<not> inFlight w \<longrightarrow>
          error (step callf cfg (Submit p) w) = JNull \<and> result (step callf cfg (Submit p) w) = JNull)"
proof -
  have i1: "guard_inv w" using assms by (simp add: guard_inv_run)
  have a: "error w \<noteq> JNull \<longrightarrow> status w = ERROR"
    and b: "result w \<noteq> JNull \<longrightarrow> status w = SUCCESS"
    using i1 by (simp_all add: guard_inv_def)
  have c: "\<not> inFlight w \<longrightarrow>
          error (step callf cfg (Submit p) w) = JNull \<and> result (step callf cfg (Submit p) w) = JNull"
    by (simp add: submit_def loop_head_def call_submitForm_def leave_def)
  from a b c show ?thesis by auto
qed

theorem result_error_exclusive_witness:
  "error (run returns_undefined default_options [Submit (JStr ''a''), Rejects 0 bad_request] initial) \<noteq> JNull
   \<and> status (run returns_undefined default_options [Submit (JStr ''a''), Rejects 0 bad_request] initial) = ERROR
   \<and> result (run returns_undefined default_options [Submit (JStr ''a''), Rejects 0 bad_request] initial) = JNull
   \<and> result (run returns_undefined default_options [Submit (JStr ''a''), Resolves 0 mock_success] initial)
       \<noteq> JNull
   \<and> status (run returns_undefined default_options [Submit (JStr ''a''), Resolves 0 mock_success] initial)
       = SUCCESS
   \<and> \<not> inFlight (run returns_undefined default_options [Submit (JStr ''a''), Rejects 0 bad_request] initial)
   \<and> error (step returns_undefined default_options (Submit (JStr ''b''))
        (run returns_undefined default_options [Submit (JStr ''a''), Rejects 0 bad_request] initial)) = JNull"
  using result_error_exclusive [where callf = returns_undefined and cfg = default_options and p = "JStr ''b''"
      and evs = "[Submit (JStr ''a''), Rejects 0 bad_request]"
      and w = "run returns_undefined default_options [Submit (JStr ''a''), Rejects 0 bad_request] initial"]
    result_error_exclusive [where callf = returns_undefined and cfg = default_options
      and evs = "[Submit (JStr ''a''), Resolves 0 mock_success]"
      and w = "run returns_undefined default_options [Submit (JStr ''a''), Resolves 0 mock_success] initial"]
  by (simp add: hook_defs)



text \<open>
  C10 (a dropped call fulfils with undefined). In a reachable state with the guard set, a
  call of \<open>submit\<close> returns a promise that is fulfilled with \<open>undefined\<close> at once and
  stays so whatever happens afterwards; it is never rejected. The promise of an accepted
  call whose invocation of \<open>submitForm\<close> resolves with \<open>v\<close> is fulfilled with \<open>v\<close>.
\<close>

theorem dropped_submit_fulfils_undefined:
  assumes "w = run callf cfg evs initial"
  shows "(inFlight w \<longrightarrow>
            promises (step callf cfg (Submit p) w) = promises w @ [Fulfilled JUndefined]
            \<and> promises (run callf cfg evs' (step callf cfg (Submit p) w)) ! length (promises w)
                = Fulfilled JUndefined)
     \<and> (\<forall>t. tasks w = [t] \<and> waiting t = AwaitSubmitForm \<longrightarrow>
            promises (step callf cfg (Resolves (tid t) v) w) ! tid t = Fulfilled v)"
proof -
  have i1: "guard_inv w" using assms by (simp add: guard_inv_run)
  have dropped: "inFlight w \<longrightarrow>
            promises (step callf cfg (Submit p) w) = promises w @ [Fulfilled JUndefined]
            \<and> promises (run callf cfg evs' (step callf cfg (Submit p) w)) ! length (promises w)
                = Fulfilled JUndefined"
  proof
    assume busy: "inFlight w"
    let ?w1 = "step callf cfg (Submit p) w"
    have p1: "promises ?w1 = promises w @ [Fulfilled JUndefined]"
      using busy by (simp add: submit_def)
    have g1: "guard_inv ?w1" using i1 by (rule guard_inv_step)
    have "promises (run callf cfg evs' ?w1) ! length (promises w) = promises ?w1 ! length (promises w)"
      using settled_run[OF g1, of "length (promises w)" callf cfg evs'] p1 by simp
    then show "promises ?w1 = promises w @ [Fulfilled JUndefined]
            \<and> promises (run callf cfg evs' ?w1) ! length (promises w) = Fulfilled JUndefined"
      using p1 by simp
  qed
  have accepted: "\<forall>t. tasks w = [t] \<and> waiting t = AwaitSubmitForm \<longrightarrow>
            promises (step callf cfg (Resolves (tid t) v) w) ! tid t = Fulfilled v"
    using i1 by (auto simp: guard_inv_def take_task_def on_response_def leave_def)
  from dropped accepted show ?thesis by blast
qed

theorem dropped_submit_fulfils_undefined_witness:
  "inFlight (run returns_undefined default_options [Submit (JStr ''a'')] initial)
   \<and> promises (step returns_undefined default_options (Submit (JStr ''b''))
        (run returns_undefined default_options [Submit (JStr ''a'')] initial))
       = [Unsettled, Fulfilled JUndefined]
   \<and> promises (run returns_undefined default_options [Rejects 0 bad_request]
        (step returns_undefined default_options (Submit (JStr ''b''))
           (run returns_undefined default_options [Submit (JStr ''a'')] initial)))
       = [Rejected bad_request, Fulfilled JUndefined]
   \<and> tasks (run returns_undefined default_options [Submit (JStr ''a'')] initial)
       = [\<lparr>tid = 0, payload = JStr ''a'', attempt = 0, waiting = AwaitSubmitForm\<rparr>]
   \<and> promises (step returns_undefined default_options (Resolves 0 mock_success)
        (run returns_undefined default_options [Submit (JStr ''a'')] initial)) = [Fulfilled mock_success]"
  using dropped_submit_fulfils_undefined [where callf = returns_undefined and cfg = default_options
      and evs = "[Submit (JStr ''a'')]" and p = "JStr ''b''"
      and evs' = "[Rejects 0 bad_request]" and v = mock_success
      and w = "run returns_undefined default_options [Submit (JStr ''a'')] initial"]
  by (simp add: hook_defs)

end
